theory Spec2Isabelle
  imports Main "HOL-Library.Sublist"
begin

section \<open>Python values, exceptions and strings\<close>

text \<open>
  The script \<^verbatim>\<open>main.py\<close> is sequential glue around three libraries: boto3 (one
  describe call), imaplib (one mailbox search) and smtplib (one send). The outcome of every
  library call is an input of the model (the record \<open>world\<close> below); everything the script
  itself computes from those outcomes is a HOL function.

  Strings are byte lists. The values that flow through the script are the JSON-like
  values of a boto3 response.
\<close>

datatype pyval =
    PNone
  | PBool bool
  | PInt int
  | PStr string
  | PList "pyval list"
  | PDict "(string \<times> pyval) list"

type_synonym pydict = "(string \<times> pyval) list"

datatype exc_class = KeyError | IndexError | TypeError | AttributeError | LibraryError

text \<open>
  An exception is its class and the text \<^verbatim>\<open>str(e)\<close> gives. Every exception of the
  model is an instance of \<^verbatim>\<open>Exception\<close>, the class both handlers of the script catch;
  interrupts (\<^verbatim>\<open>KeyboardInterrupt\<close>, \<^verbatim>\<open>SystemExit\<close>) are outside the model.
\<close>

datatype py_exc = Exc exc_class string

fun str_exc :: "py_exc \<Rightarrow> string" where
  "str_exc (Exc c t) = t"

definition py_bind :: "py_exc + 'a \<Rightarrow> ('a \<Rightarrow> py_exc + 'b) \<Rightarrow> py_exc + 'b" where
  "py_bind m f = (case m of Inl e \<Rightarrow> Inl e | Inr v \<Rightarrow> f v)"

definition raise_opt :: "py_exc option \<Rightarrow> py_exc + unit" where
  "raise_opt r = (case r of Some e \<Rightarrow> Inl e | None \<Rightarrow> Inr ())"

fun type_name :: "pyval \<Rightarrow> string" where
  "type_name PNone = ''NoneType''"
| "type_name (PBool b) = ''bool''"
| "type_name (PInt i) = ''int''"
| "type_name (PStr s) = ''str''"
| "type_name (PList xs) = ''list''"
| "type_name (PDict kvs) = ''dict''"

definition sq :: string where
  "sq = [CHR 0x27]"

definition not_subscriptable :: "pyval \<Rightarrow> py_exc" where
  "not_subscriptable v = Exc TypeError (sq @ type_name v @ sq @ '' object is not subscriptable'')"

definition key_error :: "string \<Rightarrow> py_exc" where
  \<comment> \<open>\<^verbatim>\<open>str(KeyError(k))\<close> is \<^verbatim>\<open>repr(k)\<close>: the key between single quotes, for the
      identifier-like keys the script uses.\<close>
  "key_error k = Exc KeyError (sq @ k @ sq)"

definition no_attribute :: "string \<Rightarrow> string \<Rightarrow> py_exc" where
  "no_attribute ty attr =
     Exc AttributeError (sq @ ty @ sq @ '' object has no attribute '' @ sq @ attr @ sq)"

fun getitem_str :: "pyval \<Rightarrow> string \<Rightarrow> py_exc + pyval" where
  \<comment> \<open>\<^verbatim>\<open>obj[k]\<close> for a string key \<open>k\<close>\<close>
  "getitem_str (PDict kvs) k = (case map_of kvs k of None \<Rightarrow> Inl (key_error k) | Some v \<Rightarrow> Inr v)"
| "getitem_str (PList xs) k = Inl (Exc TypeError ''list indices must be integers or slices, not str'')"
| "getitem_str (PStr s) k = Inl (Exc TypeError (''string indices must be integers, not '' @ sq @ ''str'' @ sq))"
| "getitem_str v k = Inl (not_subscriptable v)"

fun getitem_0 :: "pyval \<Rightarrow> py_exc + pyval" where
  \<comment> \<open>\<^verbatim>\<open>obj[0]\<close>\<close>
  "getitem_0 (PList []) = Inl (Exc IndexError ''list index out of range'')"
| "getitem_0 (PList (x # xs)) = Inr x"
| "getitem_0 (PStr []) = Inl (Exc IndexError ''string index out of range'')"
| "getitem_0 (PStr (c # cs)) = Inr (PStr [c])"
| "getitem_0 (PDict kvs) = Inl (Exc KeyError ''0'')"
| "getitem_0 v = Inl (not_subscriptable v)"

fun get_method :: "pyval \<Rightarrow> string \<Rightarrow> pyval \<Rightarrow> py_exc + pyval" where
  \<comment> \<open>\<^verbatim>\<open>obj.get(k, default)\<close>\<close>
  "get_method (PDict kvs) k d = Inr (case map_of kvs k of None \<Rightarrow> d | Some v \<Rightarrow> v)"
| "get_method v k d = Inl (no_attribute (type_name v) ''get'')"

definition dict_get :: "pydict \<Rightarrow> string \<Rightarrow> pyval" where
  \<comment> \<open>\<^verbatim>\<open>data.get(k)\<close> on a dict: \<^verbatim>\<open>None\<close> for a missing key\<close>
  "dict_get d k = (case map_of d k of None \<Rightarrow> PNone | Some v \<Rightarrow> v)"

fun truthy :: "pyval \<Rightarrow> bool" where
  "truthy PNone = False"
| "truthy (PBool b) = b"
| "truthy (PInt i) = (i \<noteq> 0)"
| "truthy (PStr s) = (s \<noteq> [])"
| "truthy (PList xs) = (xs \<noteq> [])"
| "truthy (PDict kvs) = (kvs \<noteq> [])"

fun py_str :: "(pyval \<Rightarrow> string) \<Rightarrow> pyval \<Rightarrow> string" where
  \<comment> \<open>What an f-string field \<^verbatim>\<open>{v}\<close> renders. Numbers and containers are rendered by the
      interpreter's \<^verbatim>\<open>repr\<close>, the parameter \<open>rp\<close>.\<close>
  "py_str rp PNone = ''None''"
| "py_str rp (PBool b) = (if b then ''True'' else ''False'')"
| "py_str rp (PStr s) = s"
| "py_str rp v = rp v"

definition ascii_uppercase :: string where
  "ascii_uppercase = ''ABCDEFGHIJKLMNOPQRSTUVWXYZ''"

definition ascii_lowercase :: string where
  "ascii_lowercase = ''abcdefghijklmnopqrstuvwxyz''"

definition py_lower_char :: "char \<Rightarrow> char" where
  \<comment> \<open>an upper-case letter becomes its lower-case letter, every other byte stays\<close>
  "py_lower_char c =
     (case map_of (zip ascii_uppercase ascii_lowercase) c of None \<Rightarrow> c | Some d \<Rightarrow> d)"

definition lower :: "string \<Rightarrow> string" where
  \<comment> \<open>\<^verbatim>\<open>str.lower()\<close> on 7-bit text, the text of mail header names and values\<close>
  "lower s = map py_lower_char s"

definition startswith :: "string \<Rightarrow> string \<Rightarrow> bool" where
  "startswith s p = (take (length p) s = p)"

definition is_space :: "char \<Rightarrow> bool" where
  \<comment> \<open>the ASCII whitespace \<^verbatim>\<open>bytes.split()\<close> splits at\<close>
  "is_space c = (c \<in> set [CHR 0x20, CHR 0x09, CHR 0x0A, CHR 0x0D, CHR 0x0B, CHR 0x0C])"

fun split_from :: "string \<Rightarrow> string \<Rightarrow> string list" where
  "split_from cur [] = (if cur = [] then [] else [rev cur])"
| "split_from cur (c # cs) =
     (if is_space c then (if cur = [] then split_from [] cs else rev cur # split_from [] cs)
      else split_from (c # cur) cs)"

definition split :: "string \<Rightarrow> string list" where
  \<comment> \<open>\<^verbatim>\<open>b.split()\<close>: the maximal runs of non-whitespace bytes\<close>
  "split b = split_from [] b"

definition join :: "string \<Rightarrow> string list \<Rightarrow> string" where
  \<comment> \<open>\<^verbatim>\<open>sep.join(xs)\<close>\<close>
  "join sep xs = (case xs of [] \<Rightarrow> [] | x # rest \<Rightarrow> x @ concat (map (\<lambda>y. sep @ y) rest))"

section \<open>Configuration\<close>

text \<open>The constants of lines 14--36 of \<^verbatim>\<open>main.py\<close>.\<close>

definition DB_INSTANCE_ID :: string where
  "DB_INSTANCE_ID = ''devdatabase''"

definition RECIPIENTS :: "string list" where
  "RECIPIENTS =
     [''trinadh5121@gmail.com'',
      ''keerthisetty2001@gmail.com'',
      ''2021tm70803@wilp.bitspilani.ac.in'']"

definition MAIL_SUBJECT :: string where
  "MAIL_SUBJECT = ''Weekly RDS Maintenance Report''"

section \<open>Mail messages\<close>

text \<open>
  A parsed message (\<^verbatim>\<open>email.message.Message\<close>) is its header list, in the order of the
  raw message, each value as the bytes of the raw header; names compare
  case-insensitively. Reading a header hands out a \<^verbatim>\<open>str\<close> when the value is 7-bit
  and an \<^verbatim>\<open>email.header.Header\<close> object when it holds a byte above 127 (the default
  policy of \<^verbatim>\<open>message_from_bytes\<close>).
\<close>

type_synonym message = "(string \<times> string) list"

datatype hval = HStr string | HHeader string

definition has_surrogates :: "string \<Rightarrow> bool" where
  \<comment> \<open>some byte of the value is above 127\<close>
  "has_surrogates v = list_ex digit7 v"

definition header_fetch_parse :: "string \<Rightarrow> hval" where
  "header_fetch_parse v = (if has_surrogates v then HHeader v else HStr v)"

fun msg_get :: "message \<Rightarrow> string \<Rightarrow> hval option" where
  \<comment> \<open>\<^verbatim>\<open>msg[name]\<close> and \<^verbatim>\<open>msg.get(name)\<close>: the first header of that name, or \<^verbatim>\<open>None\<close>\<close>
  "msg_get [] name = None"
| "msg_get ((k, v) # hs) name =
     (if lower k = lower name then Some (header_fetch_parse v) else msg_get hs name)"

definition get_all :: "message \<Rightarrow> string \<Rightarrow> hval list" where
  \<comment> \<open>\<^verbatim>\<open>msg.get_all(name, [])\<close>: every header of that name\<close>
  "get_all m name =
     map (\<lambda>(k, v). header_fetch_parse v) (filter (\<lambda>(k, v). lower k = lower name) m)"

text \<open>
  The message being built (\<^verbatim>\<open>MIMEMultipart()\<close>): assigning \<^verbatim>\<open>msg[name] = v\<close> appends a
  header, and \<open>v\<close> may be a \<^verbatim>\<open>str\<close>, a \<^verbatim>\<open>Header\<close> object or \<^verbatim>\<open>None\<close>;
  \<^verbatim>\<open>attach\<close> appends a part to the payload.
\<close>

record mime_text =
  text_of :: string
  subtype :: string

record mime =
  headers :: "(string \<times> hval option) list"
  payload :: "mime_text list"

definition MIMEMultipart :: mime where
  \<comment> \<open>the two headers the library's constructor sets\<close>
  "MIMEMultipart =
     \<lparr>headers = [(''Content-Type'', Some (HStr ''multipart/mixed'')),
                 (''MIME-Version'', Some (HStr ''1.0''))],
      payload = []\<rparr>"

definition setitem :: "mime \<Rightarrow> string \<Rightarrow> hval option \<Rightarrow> mime" where
  "setitem m name v = m\<lparr>headers := headers m @ [(name, v)]\<rparr>"

definition attach :: "mime \<Rightarrow> mime_text \<Rightarrow> mime" where
  "attach m part = m\<lparr>payload := payload m @ [part]\<rparr>"

fun header_get :: "(string \<times> hval option) list \<Rightarrow> string \<Rightarrow> hval option option" where
  \<comment> \<open>the header a reader of the built message finds under a name: \<open>None\<close> when there is no
      such header, \<open>Some v\<close> for the first one\<close>
  "header_get [] name = None"
| "header_get ((k, v) # hs) name = (if lower k = lower name then Some v else header_get hs name)"

section \<open>The world: outcomes of the library calls\<close>

datatype fetch_item = FTuple string string | FBytes string | FNone

record world =
  EMAIL_USER :: string
  boto3_client :: "py_exc option"
  describe_db_instances :: "py_exc + pyval"
  IMAP4_SSL :: "py_exc option"
  imap_login :: "py_exc option"
  imap_select :: "py_exc option"
  imap_search :: "py_exc + string option list"
  imap_fetch :: "string \<Rightarrow> py_exc + fetch_item list"
  message_from_bytes :: "string \<Rightarrow> message"
  imap_logout :: "py_exc option"
  getaddresses :: "hval option list \<Rightarrow> (string \<times> string) list"
  set_iteration :: "string list \<Rightarrow> string list"
  py_repr :: "pyval \<Rightarrow> string"
  as_string :: "mime \<Rightarrow> py_exc + string"
  SMTP :: "py_exc option"
  starttls :: "py_exc option"
  smtp_login :: "py_exc option"
  sendmail :: "string \<Rightarrow> string list \<Rightarrow> string \<Rightarrow> py_exc option"
  smtp_quit :: "py_exc option"

text \<open>
  A call that returns nothing of interest is \<open>None\<close> when it succeeds and \<open>Some e\<close> when
  it raises \<open>e\<close>. \<open>imap_search\<close> is the data list of the \<^verbatim>\<open>SEARCH\<close> response,
  \<open>imap_fetch\<close> the data list of the \<^verbatim>\<open>FETCH\<close> response for a message id.
  \<open>getaddresses\<close> is the address parser of \<^verbatim>\<open>email.utils\<close>; it receives the field values
  as the script passes them, \<open>None\<close> and \<^verbatim>\<open>Header\<close> objects included.
  \<open>set_iteration xs\<close> is the order in which
  the interpreter enumerates \<^verbatim>\<open>set(xs)\<close>: Python leaves it open, and every order that
  lists each element of \<open>xs\<close> once is possible.
\<close>

definition set_iteration_ok :: "world \<Rightarrow> bool" where
  "set_iteration_ok w =
     (\<forall>xs. distinct (set_iteration w xs) \<and> set (set_iteration w xs) = set xs)"

section \<open>Console lines and transport calls\<close>

datatype line =
    Fetching_RDS_Details
  | Error_fetching_RDS_details string
  | IMAP_Search_Error string
  | No_existing_thread
  | Found_existing_thread "hval option"
  | Email_Sent_Successfully "string list"
  | SMTP_Error string

datatype event =
    Print line
  | Call_SMTP
  | Call_starttls
  | Call_login
  | Call_sendmail string "string list" string
  | Call_quit

section \<open>The Status Fetcher: \<^verbatim>\<open>get_rds_details\<close> (lines 38--64)\<close>

definition get_rds_details_try :: "world \<Rightarrow> py_exc + pydict" where
  \<comment> \<open>the body of the \<^verbatim>\<open>try\<close>; the dict literal evaluates its values top to bottom\<close>
  "get_rds_details_try w =
     py_bind (raise_opt (boto3_client w)) (\<lambda>client.
     py_bind (describe_db_instances w) (\<lambda>response.
     py_bind (getitem_str response ''DBInstances'') (\<lambda>instances.
     py_bind (getitem_0 instances) (\<lambda>db.
     py_bind (getitem_str db ''Engine'') (\<lambda>engine.
     py_bind (getitem_str db ''EngineVersion'') (\<lambda>version.
     py_bind (getitem_str db ''DBInstanceStatus'') (\<lambda>status.
     py_bind (get_method db ''Endpoint'' (PDict [])) (\<lambda>endpoint.
     py_bind (get_method endpoint ''Address'' (PStr ''No Endpoint'')) (\<lambda>address.
     py_bind (getitem_str db ''PreferredMaintenanceWindow'') (\<lambda>window.
     py_bind (get_method db ''PendingModifiedValues'' (PDict [])) (\<lambda>pending.
     Inr [(''engine'', engine),
          (''version'', version),
          (''status'', status),
          (''endpoint'', address),
          (''maintenance_window'', window),
          (''pending_mods'', pending)])))))))))))"

definition dummy_dict :: "py_exc \<Rightarrow> pydict" where
  \<comment> \<open>line 64: the dict returned from the handler\<close>
  "dummy_dict e =
     [(''engine'', PStr ''Error''),
      (''version'', PStr ''Error''),
      (''status'', PStr (str_exc e)),
      (''pending_mods'', PDict [])]"

definition get_rds_details :: "world \<Rightarrow> event list \<times> (py_exc + pydict)" where
  "get_rds_details w =
     (case get_rds_details_try w of
        Inr d \<Rightarrow> ([], Inr d)
      | Inl e \<Rightarrow> ([Print (Error_fetching_RDS_details (str_exc e))], Inr (dummy_dict e)))"

section \<open>The Conversation Locator: \<^verbatim>\<open>find_existing_thread\<close> (lines 66--90)\<close>

fun first_split :: "string option list \<Rightarrow> py_exc + string list" where
  \<comment> \<open>line 75: \<^verbatim>\<open>messages[0].split()\<close>\<close>
  "first_split [] = Inl (Exc IndexError ''list index out of range'')"
| "first_split (None # ms) = Inl (no_attribute ''NoneType'' ''split'')"
| "first_split (Some b # ms) = Inr (split b)"

fun raw_email_of :: "fetch_item list \<Rightarrow> py_exc + string" where
  \<comment> \<open>line 84: \<^verbatim>\<open>msg_data[0][1]\<close>. Indexing a bytes item gives an int, which the parser
      of line 85 rejects; the two steps are one here.\<close>
  "raw_email_of [] = Inl (Exc IndexError ''list index out of range'')"
| "raw_email_of (FTuple a b # ds) = Inr b"
| "raw_email_of (FBytes b # ds) =
     (if length b < 2 then Inl (Exc IndexError ''index out of range'')
      else Inl (no_attribute ''int'' ''decode''))"
| "raw_email_of (FNone # ds) = Inl (not_subscriptable PNone)"

definition find_existing_thread_try :: "world \<Rightarrow> py_exc + message option" where
  "find_existing_thread_try w =
     py_bind (raise_opt (IMAP4_SSL w)) (\<lambda>mail.
     py_bind (raise_opt (imap_login w)) (\<lambda>u.
     py_bind (raise_opt (imap_select w)) (\<lambda>u.
     py_bind (imap_search w) (\<lambda>messages.
     py_bind (first_split messages) (\<lambda>email_ids.
       if email_ids = [] then
         py_bind (raise_opt (imap_logout w)) (\<lambda>u. Inr None)
       else
         (let latest_id = last email_ids in
          py_bind (imap_fetch w latest_id) (\<lambda>msg_data.
          py_bind (raw_email_of msg_data) (\<lambda>raw_email.
          (let msg = message_from_bytes w raw_email in
           py_bind (raise_opt (imap_logout w)) (\<lambda>u. Inr (Some msg)))))))))))"

definition find_existing_thread :: "world \<Rightarrow> event list \<times> (py_exc + message option)" where
  "find_existing_thread w =
     (case find_existing_thread_try w of
        Inr r \<Rightarrow> ([], Inr r)
      | Inl e \<Rightarrow> ([Print (IMAP_Search_Error (str_exc e))], Inr None))"

section \<open>The Report Dispatcher: \<^verbatim>\<open>send_report\<close> (lines 92--168)\<close>

definition nl :: string where
  "nl = [CHR 0x0A]"

text \<open>The literal text of the f-string of lines 97--114, cut at its six fields.\<close>

definition html_1 :: string where
  \<open>html_1 =
     nl @
     ''    <html>'' @
     nl @
     ''    <body>'' @
     nl @
     ''        <h3 style="color: #2E86C1;">RDS Maintenance Update</h3>'' @
     nl @
     ''        <p><b>Target Database:</b> ''\<close>

definition html_2 :: string where
  \<open>html_2 =
     ''</p>'' @
     nl @
     ''        <table border="1" cellpadding="5" cellspacing="0" style="border-collapse: collapse;">'' @
     nl @
     ''            <tr style="background-color: #f2f2f2;"><th>Parameter</th><th>Value</th></tr>'' @
     nl @
     ''            <tr><td>Engine</td><td>''\<close>

definition html_3 :: string where
  \<open>html_3 =
     ''</td></tr>'' @
     nl @
     ''            <tr><td>Current Version</td><td>''\<close>

definition html_4 :: string where
  \<open>html_4 =
     ''</td></tr>'' @
     nl @
     ''            <tr><td>Status</td><td>''\<close>

definition html_5 :: string where
  \<open>html_5 =
     ''</td></tr>'' @
     nl @
     ''            <tr><td>Maintenance Window</td><td>''\<close>

definition html_6 :: string where
  \<open>html_6 =
     ''</td></tr>'' @
     nl @
     ''        </table>'' @
     nl @
     ''        <p><b>Pending Modifications:</b> ''\<close>

definition html_7 :: string where
  \<open>html_7 =
     ''</p>'' @
     nl @
     ''        <br>'' @
     nl @
     ''        <p>Regards,<br>Cloud Automation Bot</p>'' @
     nl @
     ''    </body>'' @
     nl @
     ''    </html>'' @
     nl @
     ''    ''\<close>

definition html_body :: "world \<Rightarrow> pydict \<Rightarrow> string" where
  "html_body w data =
     html_1 @ DB_INSTANCE_ID @
     html_2 @ py_str (py_repr w) (dict_get data ''engine'') @
     html_3 @ py_str (py_repr w) (dict_get data ''version'') @
     html_4 @ py_str (py_repr w) (dict_get data ''status'') @
     html_5 @ py_str (py_repr w) (dict_get data ''maintenance_window'') @
     html_6 @ (if truthy (dict_get data ''pending_mods'')
               then py_str (py_repr w) (dict_get data ''pending_mods'') else ''None'') @
     html_7"

definition reply_subject :: "string \<Rightarrow> string" where
  \<comment> \<open>lines 129--131\<close>
  "reply_subject new_subject =
     (if \<not> startswith (lower new_subject) ''re:'' then ''Re: '' @ new_subject else new_subject)"

definition or_empty :: "hval option \<Rightarrow> hval" where
  \<comment> \<open>\<^verbatim>\<open>v or ''\<close>: \<^verbatim>\<open>None\<close> and the empty string give the empty string; every
      other string and every \<^verbatim>\<open>Header\<close> object is truthy and stays\<close>
  "or_empty v =
     (case v of
        None \<Rightarrow> HStr []
      | Some (HStr s) \<Rightarrow> if s \<noteq> [] then HStr s else HStr []
      | Some (HHeader h) \<Rightarrow> HHeader h)"

definition concat_none_error :: py_exc where
  \<comment> \<open>what \<^verbatim>\<open>str + None\<close> raises\<close>
  \<open>concat_none_error = Exc TypeError ''can only concatenate str (not "NoneType") to str''\<close>

definition concat_header_error :: py_exc where
  \<comment> \<open>what \<^verbatim>\<open>str + Header\<close> raises\<close>
  \<open>concat_header_error = Exc TypeError ''can only concatenate str (not "Header") to str''\<close>

definition header_plus_str_error :: py_exc where
  \<comment> \<open>what \<^verbatim>\<open>Header + str\<close> raises\<close>
  "header_plus_str_error =
     Exc TypeError (''unsupported operand type(s) for +: '' @ sq @ ''Header'' @ sq
                    @ '' and '' @ sq @ ''str'' @ sq)"

definition references_value :: "hval option \<Rightarrow> hval option \<Rightarrow> py_exc + string" where
  \<comment> \<open>the right-hand side of line 134, evaluated left to right:
      \<^verbatim>\<open>(references or '') + ' ' + message_id\<close>\<close>
  "references_value references message_id =
     (case or_empty references of
        HHeader h \<Rightarrow> Inl header_plus_str_error
      | HStr r \<Rightarrow>
          (case message_id of
             None \<Rightarrow> Inl concat_none_error
           | Some (HHeader h) \<Rightarrow> Inl concat_header_error
           | Some (HStr m) \<Rightarrow> Inr ((r @ '' '') @ m)))"

definition reply_list :: "world \<Rightarrow> message \<Rightarrow> string list" where
  \<comment> \<open>lines 138--143: the addresses of every To and Cc header and of the first From header
      (\<^verbatim>\<open>None\<close> when there is none), as the library's parser extracts them\<close>
  "reply_list w orig =
     (let tos = get_all orig ''to'';
          ccs = get_all orig ''cc'';
          all_addrs = getaddresses w (map Some tos @ map Some ccs @ [msg_get orig ''from''])
      in map snd all_addrs)"

definition send_report_compose ::
  "world \<Rightarrow> pydict \<Rightarrow> message option \<Rightarrow> event list \<times> (py_exc + mime \<times> string list)" where
  \<comment> \<open>lines 94--157: the message and the envelope, or the exception that ends the run\<close>
  "send_report_compose w data original_msg =
     (let msg = MIMEMultipart;
          html = html_body w data
      in case original_msg of
           None \<Rightarrow>
             (let msg = setitem msg ''Subject'' (Some (HStr MAIL_SUBJECT));
                  msg = setitem msg ''To'' (Some (HStr (join '', '' RECIPIENTS)));
                  msg = setitem msg ''Cc'' (Some (HStr (EMAIL_USER w)));
                  final_to_list = RECIPIENTS @ [EMAIL_USER w];
                  msg = setitem msg ''From'' (Some (HStr (EMAIL_USER w)));
                  msg = attach msg \<lparr>text_of = html, subtype = ''html''\<rparr>
              in ([Print No_existing_thread], Inr (msg, final_to_list)))
         | Some orig \<Rightarrow>
             ([Print (Found_existing_thread (msg_get orig ''Subject''))],
              case msg_get orig ''Subject'' of
                None \<Rightarrow> Inl (no_attribute ''NoneType'' ''lower'')
              | Some (HHeader h) \<Rightarrow> Inl (no_attribute ''Header'' ''lower'')
              | Some (HStr new_subject) \<Rightarrow>
                  (let msg = setitem msg ''Subject'' (Some (HStr (reply_subject new_subject)));
                       msg = setitem msg ''In-Reply-To'' (msg_get orig ''Message-ID'')
                   in case references_value (msg_get orig ''References'')
                             (msg_get orig ''Message-ID'') of
                        Inl e \<Rightarrow> Inl e
                      | Inr references \<Rightarrow>
                          (let msg = setitem msg ''References'' (Some (HStr references));
                               final_to_list =
                                 set_iteration w (reply_list w orig @ RECIPIENTS @ [EMAIL_USER w]);
                               msg = setitem msg ''To'' (msg_get orig ''To'');
                               msg = setitem msg ''Cc'' (msg_get orig ''Cc'');
                               msg = setitem msg ''From'' (Some (HStr (EMAIL_USER w)));
                               msg = attach msg \<lparr>text_of = html, subtype = ''html''\<rparr>
                           in Inr (msg, final_to_list)))))"

definition send_report_smtp :: "world \<Rightarrow> mime \<Rightarrow> string list \<Rightarrow> event list" where
  \<comment> \<open>lines 160--168: every exception of the session ends it with one console line\<close>
  "send_report_smtp w msg final_to_list =
     Call_SMTP #
     (case SMTP w of Some e \<Rightarrow> [Print (SMTP_Error (str_exc e))] | None \<Rightarrow>
      Call_starttls #
      (case starttls w of Some e \<Rightarrow> [Print (SMTP_Error (str_exc e))] | None \<Rightarrow>
       Call_login #
       (case smtp_login w of Some e \<Rightarrow> [Print (SMTP_Error (str_exc e))] | None \<Rightarrow>
        (case as_string w msg of Inl e \<Rightarrow> [Print (SMTP_Error (str_exc e))] | Inr text \<Rightarrow>
         Call_sendmail (EMAIL_USER w) final_to_list text #
         (case sendmail w (EMAIL_USER w) final_to_list text of
            Some e \<Rightarrow> [Print (SMTP_Error (str_exc e))]
          | None \<Rightarrow>
            Call_quit #
            (case smtp_quit w of
               Some e \<Rightarrow> [Print (SMTP_Error (str_exc e))]
             | None \<Rightarrow> [Print (Email_Sent_Successfully final_to_list)]))))))"

definition send_report :: "world \<Rightarrow> pydict \<Rightarrow> event list \<times> (py_exc + unit)" where
  "send_report w data =
     (case find_existing_thread w of
        (t1, Inl e) \<Rightarrow> (t1, Inl e)
      | (t1, Inr original_msg) \<Rightarrow>
          (case send_report_compose w data original_msg of
             (t2, Inl e) \<Rightarrow> (t1 @ t2, Inl e)
           | (t2, Inr (msg, final_to_list)) \<Rightarrow>
               (t1 @ t2 @ send_report_smtp w msg final_to_list, Inr ())))"

section \<open>The run (lines 170--173)\<close>


section \<open>Example worlds\<close>

text \<open>
  A run whose mailbox holds one earlier report thread: a colleague's answer to the first
  report, addressed to the bot with one more reader in copy. Its address parser handles
  field values that hold one bare address each, which is all these mailboxes contain, and
  its interpreter enumerates a set keeping the last occurrence of each element.
\<close>

definition example_db :: pyval where
  "example_db = PDict
     [(''DBInstanceIdentifier'', PStr ''devdatabase''),
      (''Engine'', PStr ''postgres''),
      (''EngineVersion'', PStr ''15.4''),
      (''DBInstanceStatus'', PStr ''available''),
      (''Endpoint'', PDict [(''Address'', PStr ''devdatabase.example.rds.amazonaws.com''),
                            (''Port'', PInt 5432)]),
      (''PreferredMaintenanceWindow'', PStr ''sun:05:00-sun:05:30''),
      (''PendingModifiedValues'', PDict [])]"

definition example_data :: pydict where
  "example_data =
     [(''engine'', PStr ''postgres''),
      (''version'', PStr ''15.4''),
      (''status'', PStr ''available''),
      (''endpoint'', PStr ''devdatabase.example.rds.amazonaws.com''),
      (''maintenance_window'', PStr ''sun:05:00-sun:05:30''),
      (''pending_mods'', PDict [])]"

definition example_prior :: message where
  "example_prior =
     [(''From'', ''keerthisetty2001@gmail.com''),
      (''To'', ''bot@example.com''),
      (''Cc'', ''oncall@example.com''),
      (''Subject'', ''Weekly RDS Maintenance Report''),
      (''Message-ID'', ''<CAF1@mail.gmail.com>''),
      (''References'', '''')]"

definition bare_addresses :: "hval option list \<Rightarrow> (string \<times> string) list" where
  \<comment> \<open>what \<^verbatim>\<open>email.utils.getaddresses\<close> returns for field values that are \<^verbatim>\<open>None\<close>,
      empty, or one bare 7-bit address: it takes \<^verbatim>\<open>str(v)\<close> of each value, so \<^verbatim>\<open>None\<close>
      is read as the address \<^verbatim>\<open>None\<close>, and an empty value gives the empty address\<close>
  "bare_addresses vs =
     map (\<lambda>v. ('''', case v of None \<Rightarrow> ''None'' | Some (HStr s) \<Rightarrow> s | Some (HHeader h) \<Rightarrow> h)) vs"

definition example_as_string :: "mime \<Rightarrow> py_exc + string" where
  "example_as_string m =
     Inr (concat (map (\<lambda>(k, v). k @ '': ''
                         @ (case v of None \<Rightarrow> [] | Some (HStr s) \<Rightarrow> s | Some (HHeader h) \<Rightarrow> h) @ nl)
                    (headers m)))"

definition example_world :: world where
  "example_world =
     \<lparr>EMAIL_USER = ''bot@example.com'',
      boto3_client = None,
      describe_db_instances = Inr (PDict [(''DBInstances'', PList [example_db])]),
      IMAP4_SSL = None,
      imap_login = None,
      imap_select = None,
      imap_search = Inr [Some ''3 7''],
      imap_fetch = (\<lambda>i. if i = ''7'' then Inr [FTuple ''7 (RFC822 {412}'' ''raw'', FBytes '')'']
                         else Inl (Exc LibraryError ''FETCH command error'')),
      message_from_bytes = (\<lambda>raw. example_prior),
      imap_logout = None,
      getaddresses = bare_addresses,
      set_iteration = remdups,
      py_repr = (\<lambda>v. ''{}''),
      as_string = example_as_string,
      SMTP = None,
      starttls = None,
      smtp_login = None,
      sendmail = (\<lambda>sender tos text. None),
      smtp_quit = None\<rparr>"





definition prior_without_from :: message where
  "prior_without_from =
     [(''To'', ''bot@example.com''),
      (''Cc'', ''oncall@example.com''),
      (''Subject'', ''Re: Weekly RDS Maintenance Report''),
      (''Message-ID'', ''<CAF4@mail.gmail.com>'')]"

definition prior_with_empty_cc :: message where
  \<comment> \<open>the bot's own reply to a message that had no Cc header: line 152 gave it a Cc
      header without a value\<close>
  "prior_with_empty_cc =
     [(''Content-Type'', ''multipart/mixed''),
      (''MIME-Version'', ''1.0''),
      (''Subject'', ''Re: Weekly RDS Maintenance Report''),
      (''In-Reply-To'', ''<CAF5@mail.gmail.com>''),
      (''References'', '' <CAF5@mail.gmail.com>''),
      (''To'', ''bot@example.com''),
      (''Cc'', ''''),
      (''From'', ''bot@example.com''),
      (''Message-ID'', ''<CAF6@mail.gmail.com>'')]"


definition empty_mailbox_world :: world where
  "empty_mailbox_world = example_world\<lparr>imap_search := Inr [Some '''']\<rparr>"

definition imap_down_world :: world where
  "imap_down_world = example_world\<lparr>IMAP4_SSL := Some (Exc LibraryError ''Connection refused'')\<rparr>"



definition no_from_world :: world where
  "no_from_world = example_world\<lparr>message_from_bytes := (\<lambda>raw. prior_without_from)\<rparr>"

definition empty_cc_world :: world where
  "empty_cc_world = example_world\<lparr>message_from_bytes := (\<lambda>raw. prior_with_empty_cc)\<rparr>"

section \<open>Preconditions named by the properties\<close>

definition is_text :: "hval option \<Rightarrow> bool" where
  \<comment> \<open>the header is present and its value is a \<^verbatim>\<open>str\<close>\<close>
  "is_text v = (case v of Some (HStr s) \<Rightarrow> True | Some (HHeader h) \<Rightarrow> False | None \<Rightarrow> False)"

definition is_header_object :: "hval option \<Rightarrow> bool" where
  "is_header_object v = (case v of Some (HHeader h) \<Rightarrow> True | Some (HStr s) \<Rightarrow> False | None \<Rightarrow> False)"

definition threading_headers_text :: "message \<Rightarrow> bool" where
  \<comment> \<open>the earlier message carries a Subject and a Message-ID, both 7-bit, and its
      References header, if any, is 7-bit\<close>
  "threading_headers_text p =
     (is_text (msg_get p ''Subject'') \<and> is_text (msg_get p ''Message-ID'')
      \<and> \<not> is_header_object (msg_get p ''References''))"

definition starts_with_re :: "string \<Rightarrow> bool" where
  \<comment> \<open>the text begins with \<^verbatim>\<open>Re:\<close> in any mix of upper and lower case\<close>
  "starts_with_re s =
     (\<exists>r e rest. s = r # e # CHR '':'' # rest
        \<and> (r = CHR ''r'' \<or> r = CHR ''R'') \<and> (e = CHR ''e'' \<or> e = CHR ''E''))"
section \<open>Basic facts\<close>

lemma py_bind_Inl [simp]: "py_bind (Inl e) f = Inl e"
  by (simp add: py_bind_def)

lemma py_bind_Inr [simp]: "py_bind (Inr v) f = f v"
  by (simp add: py_bind_def)

lemmas lower_eval = lower_def py_lower_char_def ascii_uppercase_def ascii_lowercase_def






lemma find_existing_thread_total: "\<exists>t r. find_existing_thread w = (t, Inr r)"
  by (simp add: find_existing_thread_def split: sum.split)


text \<open>Line 134 gives a value exactly for a 7-bit Message-ID and a References header that
  is absent or 7-bit.\<close>

lemma references_value_Inr_iff:
  "references_value refs mid = Inr x \<longleftrightarrow>
     \<not> is_header_object refs
     \<and> (\<exists>m. mid = Some (HStr m)
              \<and> x = (case refs of Some (HStr r) \<Rightarrow> r | Some (HHeader h) \<Rightarrow> [] | None \<Rightarrow> [])
                       @ '' '' @ m)"
  by (auto simp add: references_value_def or_empty_def is_header_object_def
      split: option.splits hval.splits)


text \<open>The two paths of the composition, written out.\<close>

lemma compose_new:
  "send_report_compose w data None =
     ([Print No_existing_thread],
      Inr (\<lparr>headers =
              [(''Content-Type'', Some (HStr ''multipart/mixed'')),
               (''MIME-Version'', Some (HStr ''1.0'')),
               (''Subject'', Some (HStr MAIL_SUBJECT)),
               (''To'', Some (HStr (join '', '' RECIPIENTS))),
               (''Cc'', Some (HStr (EMAIL_USER w))),
               (''From'', Some (HStr (EMAIL_USER w)))],
             payload = [\<lparr>text_of = html_body w data, subtype = ''html''\<rparr>]\<rparr>,
           RECIPIENTS @ [EMAIL_USER w]))"
  by (simp add: send_report_compose_def Let_def setitem_def attach_def MIMEMultipart_def)

lemma compose_reply:
  assumes "msg_get p ''Subject'' = Some (HStr s)"
    and "references_value (msg_get p ''References'') (msg_get p ''Message-ID'') = Inr r"
  shows "send_report_compose w data (Some p) =
     ([Print (Found_existing_thread (Some (HStr s)))],
      Inr (\<lparr>headers =
              [(''Content-Type'', Some (HStr ''multipart/mixed'')),
               (''MIME-Version'', Some (HStr ''1.0'')),
               (''Subject'', Some (HStr (reply_subject s))),
               (''In-Reply-To'', msg_get p ''Message-ID''),
               (''References'', Some (HStr r)),
               (''To'', msg_get p ''To''),
               (''Cc'', msg_get p ''Cc''),
               (''From'', Some (HStr (EMAIL_USER w)))],
             payload = [\<lparr>text_of = html_body w data, subtype = ''html''\<rparr>]\<rparr>,
           set_iteration w (reply_list w p @ RECIPIENTS @ [EMAIL_USER w])))"
  using assms
  by (simp add: send_report_compose_def Let_def setitem_def attach_def MIMEMultipart_def)

lemma compose_reply_no_subject:
  assumes "msg_get p ''Subject'' = None"
  shows "send_report_compose w data (Some p) =
     ([Print (Found_existing_thread None)], Inl (no_attribute ''NoneType'' ''lower''))"
  using assms by (simp add: send_report_compose_def Let_def)

lemma compose_reply_header_subject:
  assumes "msg_get p ''Subject'' = Some (HHeader h)"
  shows "send_report_compose w data (Some p) =
     ([Print (Found_existing_thread (Some (HHeader h)))], Inl (no_attribute ''Header'' ''lower''))"
  using assms by (simp add: send_report_compose_def Let_def)

lemma compose_reply_line_134_raises:
  assumes "msg_get p ''Subject'' = Some (HStr s)"
    and "references_value (msg_get p ''References'') (msg_get p ''Message-ID'') = Inl e"
  shows "send_report_compose w data (Some p) =
     ([Print (Found_existing_thread (Some (HStr s)))], Inl e)"
  using assms by (simp add: send_report_compose_def Let_def)

lemma compose_reply_succeeds_iff:
  "(\<exists>t msg tos. send_report_compose w data (Some p) = (t, Inr (msg, tos)))
     \<longleftrightarrow> threading_headers_text p"
proof (cases "msg_get p ''Subject''")
  case None
  then show ?thesis
    by (simp add: compose_reply_no_subject threading_headers_text_def is_text_def)
next
  case (Some v)
  show ?thesis
  proof (cases v)
    case (HHeader h)
    with Some show ?thesis
      by (simp add: compose_reply_header_subject threading_headers_text_def is_text_def)
  next
    case (HStr s)
    with Some have s: "msg_get p ''Subject'' = Some (HStr s)" by simp
    show ?thesis
    proof (cases "references_value (msg_get p ''References'') (msg_get p ''Message-ID'')")
      case (Inl e)
      then have "\<not> (\<exists>x. references_value (msg_get p ''References'') (msg_get p ''Message-ID'') = Inr x)"
        by simp
      then have "\<not> threading_headers_text p"
        by (auto simp add: references_value_Inr_iff threading_headers_text_def is_text_def
            split: option.splits hval.splits)
      with s Inl show ?thesis
        by (simp add: compose_reply_line_134_raises)
    next
      case (Inr r)
      then have "threading_headers_text p"
        using s
        by (auto simp add: references_value_Inr_iff threading_headers_text_def is_text_def)
      with s Inr show ?thesis
        by (simp add: compose_reply)
    qed
  qed
qed

lemma compose_reply_result:
  assumes "send_report_compose w data (Some p) = (t, Inr (msg, tos))"
  shows "\<exists>s m. msg_get p ''Subject'' = Some (HStr s) \<and> msg_get p ''Message-ID'' = Some (HStr m)
           \<and> \<not> is_header_object (msg_get p ''References'')
           \<and> t = [Print (Found_existing_thread (Some (HStr s)))]
           \<and> headers msg =
               [(''Content-Type'', Some (HStr ''multipart/mixed'')),
                (''MIME-Version'', Some (HStr ''1.0'')),
                (''Subject'', Some (HStr (reply_subject s))),
                (''In-Reply-To'', Some (HStr m)),
                (''References'',
                   Some (HStr ((case msg_get p ''References'' of
                                  Some (HStr r) \<Rightarrow> r | Some (HHeader h) \<Rightarrow> [] | None \<Rightarrow> [])
                               @ '' '' @ m))),
                (''To'', msg_get p ''To''),
                (''Cc'', msg_get p ''Cc''),
                (''From'', Some (HStr (EMAIL_USER w)))]
           \<and> payload msg = [\<lparr>text_of = html_body w data, subtype = ''html''\<rparr>]
           \<and> tos = set_iteration w (reply_list w p @ RECIPIENTS @ [EMAIL_USER w])"
proof -
  from assms have th: "threading_headers_text p"
    using compose_reply_succeeds_iff [of w data p] by blast
  then obtain s m where s: "msg_get p ''Subject'' = Some (HStr s)"
    and m: "msg_get p ''Message-ID'' = Some (HStr m)"
    and nh: "\<not> is_header_object (msg_get p ''References'')"
    by (auto simp add: threading_headers_text_def is_text_def split: option.splits hval.splits)
  let ?r = "(case msg_get p ''References'' of
               Some (HStr r) \<Rightarrow> r | Some (HHeader h) \<Rightarrow> [] | None \<Rightarrow> []) @ '' '' @ m"
  have rv: "references_value (msg_get p ''References'') (msg_get p ''Message-ID'') = Inr ?r"
    using m nh by (simp add: references_value_Inr_iff)
  note c = compose_reply [OF s rv, of w data]
  from assms c have "t = [Print (Found_existing_thread (Some (HStr s)))]"
    and "headers msg =
               [(''Content-Type'', Some (HStr ''multipart/mixed'')),
                (''MIME-Version'', Some (HStr ''1.0'')),
                (''Subject'', Some (HStr (reply_subject s))),
                (''In-Reply-To'', Some (HStr m)),
                (''References'', Some (HStr ?r)),
                (''To'', msg_get p ''To''),
                (''Cc'', msg_get p ''Cc''),
                (''From'', Some (HStr (EMAIL_USER w)))]"
    and "payload msg = [\<lparr>text_of = html_body w data, subtype = ''html''\<rparr>]"
    and "tos = set_iteration w (reply_list w p @ RECIPIENTS @ [EMAIL_USER w])"
    by (auto simp add: m)
  with s m nh show ?thesis by blast
qed

lemma payload_compose:
  assumes "send_report_compose w data original = (t, Inr (msg, tos))"
  shows "payload msg = [\<lparr>text_of = html_body w data, subtype = ''html''\<rparr>]"
proof (cases original)
  case None
  with assms show ?thesis by (auto simp add: compose_new)
next
  case (Some p)
  with assms show ?thesis
    using compose_reply_result [of w data p t msg tos] by blast
qed

lemma compose_prints:
  assumes "send_report_compose w data original = (t, r)"
  shows "\<forall>ev \<in> set t. \<exists>l. ev = Print l"
  using assms
  by (cases original) (auto simp add: send_report_compose_def Let_def)


lemma sendmail_in_smtp:
  assumes "Call_sendmail sender tos' text \<in> set (send_report_smtp w msg tos)"
  shows "tos' = tos \<and> sender = EMAIL_USER w \<and> as_string w msg = Inr text"
  using assms
  by (auto simp add: send_report_smtp_def split: option.splits sum.splits)

lemma sendmail_reached:
  assumes "SMTP w = None" and "starttls w = None" and "smtp_login w = None"
    and "as_string w msg = Inr text"
  shows "Call_sendmail (EMAIL_USER w) tos text \<in> set (send_report_smtp w msg tos)"
  using assms by (simp add: send_report_smtp_def)

lemma send_report_composed:
  assumes "find_existing_thread w = (t1, Inr original)"
    and "send_report_compose w data original = (t2, Inr (msg, tos))"
  shows "send_report w data = (t1 @ t2 @ send_report_smtp w msg tos, Inr ())"
  using assms by (simp add: send_report_def)

lemma send_report_raised:
  assumes "find_existing_thread w = (t1, Inr original)"
    and "send_report_compose w data original = (t2, Inl e)"
  shows "send_report w data = (t1 @ t2, Inl e)"
  using assms by (simp add: send_report_def)

lemma find_existing_thread_prints:
  assumes "find_existing_thread w = (t, r)"
  shows "\<forall>ev \<in> set t. \<exists>l. ev = Print l"
  using assms by (auto simp add: find_existing_thread_def split: sum.splits)


lemmas header_eval = lower_eval header_fetch_parse_def has_surrogates_def


lemma set_iteration_ok_example: "set_iteration_ok example_world"
  by (simp add: set_iteration_ok_def example_world_def)

lemma set_iteration_ok_empty_mailbox: "set_iteration_ok empty_mailbox_world"
  by (simp add: set_iteration_ok_def empty_mailbox_world_def example_world_def)

lemma find_existing_thread_example:
  "find_existing_thread example_world = ([], Inr (Some example_prior))"
  by (simp add: find_existing_thread_def find_existing_thread_try_def example_world_def
      raise_opt_def split_def is_space_def)

lemma find_existing_thread_empty_mailbox:
  "find_existing_thread empty_mailbox_world = ([], Inr None)"
  by (simp add: find_existing_thread_def find_existing_thread_try_def empty_mailbox_world_def
      example_world_def raise_opt_def split_def)

lemma example_prior_headers:
  "msg_get example_prior ''Subject'' = Some (HStr ''Weekly RDS Maintenance Report'')"
  "msg_get example_prior ''Message-ID'' = Some (HStr ''<CAF1@mail.gmail.com>'')"
  "msg_get example_prior ''References'' = Some (HStr [])"
  "msg_get example_prior ''To'' = Some (HStr ''bot@example.com'')"
  "msg_get example_prior ''Cc'' = Some (HStr ''oncall@example.com'')"
  by (simp_all add: example_prior_def header_eval)



lemma threading_headers_text_example: "threading_headers_text example_prior"
  by (simp add: threading_headers_text_def is_text_def is_header_object_def example_prior_headers)


lemma transport_up_example:
  "SMTP example_world = None \<and> starttls example_world = None \<and> smtp_login example_world = None"
  by (simp add: example_world_def)

lemma transport_up_empty_mailbox:
  "SMTP empty_mailbox_world = None \<and> starttls empty_mailbox_world = None
   \<and> smtp_login empty_mailbox_world = None"
  by (simp add: empty_mailbox_world_def example_world_def)

lemma as_string_example: "\<exists>body. as_string example_world msg = Inr body"
  by (simp add: example_world_def example_as_string_def)

lemma as_string_empty_mailbox: "\<exists>body. as_string empty_mailbox_world msg = Inr body"
  by (simp add: empty_mailbox_world_def example_world_def example_as_string_def)


section \<open>The Conversation Locator returns no conversation on every error\<close>

text \<open>
  C6. \<^verbatim>\<open>find_existing_thread\<close> never raises. When the search finds no message id it
  returns \<^verbatim>\<open>None\<close>; when any step of the mailbox session raises (a refused connection
  is one case), the handler returns the same \<^verbatim>\<open>None\<close>, so the caller receives the
  same value in both cases.
\<close>

theorem locator_never_raises:
  "(\<exists>t r. find_existing_thread w = (t, Inr r))
   \<and> (\<forall>b ms. IMAP4_SSL w = None \<and> imap_login w = None \<and> imap_select w = None
          \<and> imap_search w = Inr (Some b # ms) \<and> split b = [] \<and> imap_logout w = None
          \<longrightarrow> find_existing_thread w = ([], Inr None))
   \<and> (\<forall>e. IMAP4_SSL w = Some e \<longrightarrow> find_existing_thread_try w = Inl e)
   \<and> (\<forall>e. find_existing_thread_try w = Inl e
          \<longrightarrow> find_existing_thread w = ([Print (IMAP_Search_Error (str_exc e))], Inr None))
   \<and> (\<forall>e w'. find_existing_thread_try w = Inl e \<and> find_existing_thread_try w' = Inr None
          \<longrightarrow> snd (find_existing_thread w) = snd (find_existing_thread w'))"
proof (intro conjI allI impI)
  show "\<exists>t r. find_existing_thread w = (t, Inr r)"
    by (rule find_existing_thread_total)
next
  fix b ms
  assume "IMAP4_SSL w = None \<and> imap_login w = None \<and> imap_select w = None
          \<and> imap_search w = Inr (Some b # ms) \<and> split b = [] \<and> imap_logout w = None"
  then show "find_existing_thread w = ([], Inr None)"
    by (simp add: find_existing_thread_def find_existing_thread_try_def raise_opt_def)
next
  fix e assume "IMAP4_SSL w = Some e"
  then show "find_existing_thread_try w = Inl e"
    by (simp add: find_existing_thread_try_def raise_opt_def)
next
  fix e assume "find_existing_thread_try w = Inl e"
  then show "find_existing_thread w = ([Print (IMAP_Search_Error (str_exc e))], Inr None)"
    by (simp add: find_existing_thread_def)
next
  fix e w'
  assume "find_existing_thread_try w = Inl e \<and> find_existing_thread_try w' = Inr None"
  then show "snd (find_existing_thread w) = snd (find_existing_thread w')"
    by (simp add: find_existing_thread_def)
qed

text \<open>An empty search result, and a mailbox server that refuses the connection.\<close>

theorem locator_never_raises_witness:
  "find_existing_thread empty_mailbox_world = ([], Inr None)
   \<and> IMAP4_SSL imap_down_world = Some (Exc LibraryError ''Connection refused'')
   \<and> find_existing_thread imap_down_world
       = ([Print (IMAP_Search_Error ''Connection refused'')], Inr None)
   \<and> snd (find_existing_thread imap_down_world) = snd (find_existing_thread empty_mailbox_world)"
proof -
  have n: "IMAP4_SSL empty_mailbox_world = None \<and> imap_login empty_mailbox_world = None
           \<and> imap_select empty_mailbox_world = None
           \<and> imap_search empty_mailbox_world = Inr (Some '''' # [])
           \<and> split '''' = [] \<and> imap_logout empty_mailbox_world = None"
    by (simp add: empty_mailbox_world_def example_world_def split_def)
  have d: "IMAP4_SSL imap_down_world = Some (Exc LibraryError ''Connection refused'')"
    by (simp add: imap_down_world_def example_world_def)
  have r1: "find_existing_thread empty_mailbox_world = ([], Inr None)"
    using locator_never_raises [of empty_mailbox_world, THEN conjunct2, THEN conjunct1,
        rule_format, of "[]" "[]"] n by simp
  note inst = locator_never_raises [of imap_down_world]
  have t: "find_existing_thread_try imap_down_world = Inl (Exc LibraryError ''Connection refused'')"
    using inst [THEN conjunct2, THEN conjunct2, THEN conjunct1, rule_format] d by simp
  have r2: "find_existing_thread imap_down_world
       = ([Print (IMAP_Search_Error (str_exc (Exc LibraryError ''Connection refused'')))], Inr None)"
    using inst [THEN conjunct2, THEN conjunct2, THEN conjunct2, THEN conjunct1, rule_format] t
    by simp
  from r1 r2 d show ?thesis by simp
qed

section \<open>The new conversation\<close>

text \<open>
  C7. When the locator returns no conversation, the composition takes the branch of
  lines 118--123 and the run goes on to the transport with that message: its Subject is
  \<^verbatim>\<open>MAIL_SUBJECT\<close>, which does not start with \<^verbatim>\<open>Re:\<close>, its headers are Content-Type,
  MIME-Version, Subject, To, Cc and From, and no header is named In-Reply-To.
\<close>

theorem new_path_subject_and_headers:
  "find_existing_thread w = (t1, Inr None) \<longrightarrow>
     (\<exists>msg tos.
        send_report_compose w data None = ([Print No_existing_thread], Inr (msg, tos))
        \<and> send_report w data
            = (t1 @ [Print No_existing_thread] @ send_report_smtp w msg tos, Inr ())
        \<and> header_get (headers msg) ''Subject'' = Some (Some (HStr MAIL_SUBJECT))
        \<and> MAIL_SUBJECT = ''Weekly RDS Maintenance Report''
        \<and> \<not> starts_with_re MAIL_SUBJECT
        \<and> map fst (headers msg)
            = [''Content-Type'', ''MIME-Version'', ''Subject'', ''To'', ''Cc'', ''From'']
        \<and> header_get (headers msg) ''In-Reply-To'' = None
        \<and> header_get (headers msg) ''References'' = None)"
proof
  assume f: "find_existing_thread w = (t1, Inr None)"
  define msg where "msg = \<lparr>headers =
              [(''Content-Type'', Some (HStr ''multipart/mixed'')),
               (''MIME-Version'', Some (HStr ''1.0'')),
               (''Subject'', Some (HStr MAIL_SUBJECT)),
               (''To'', Some (HStr (join '', '' RECIPIENTS))),
               (''Cc'', Some (HStr (EMAIL_USER w))),
               (''From'', Some (HStr (EMAIL_USER w)))],
             payload = [\<lparr>text_of = html_body w data, subtype = ''html''\<rparr>]\<rparr>"
  have c: "send_report_compose w data None
             = ([Print No_existing_thread], Inr (msg, RECIPIENTS @ [EMAIL_USER w]))"
    by (simp add: compose_new msg_def)
  have s: "send_report w data
             = (t1 @ [Print No_existing_thread] @ send_report_smtp w msg (RECIPIENTS @ [EMAIL_USER w]),
                Inr ())"
    using f c by (rule send_report_composed)
  have h1: "header_get (headers msg) ''Subject'' = Some (Some (HStr MAIL_SUBJECT))"
    by (simp add: msg_def lower_eval)
  have h2: "\<not> starts_with_re MAIL_SUBJECT"
    by (simp add: starts_with_re_def MAIL_SUBJECT_def)
  have h3: "map fst (headers msg)
            = [''Content-Type'', ''MIME-Version'', ''Subject'', ''To'', ''Cc'', ''From'']"
    by (simp add: msg_def)
  have h4: "header_get (headers msg) ''In-Reply-To'' = None"
    by (simp add: msg_def lower_eval)
  have h5: "header_get (headers msg) ''References'' = None"
    by (simp add: msg_def lower_eval)
  have h0: "MAIL_SUBJECT = ''Weekly RDS Maintenance Report''"
    by (simp add: MAIL_SUBJECT_def)
  show "\<exists>msg tos.
        send_report_compose w data None = ([Print No_existing_thread], Inr (msg, tos))
        \<and> send_report w data
            = (t1 @ [Print No_existing_thread] @ send_report_smtp w msg tos, Inr ())
        \<and> header_get (headers msg) ''Subject'' = Some (Some (HStr MAIL_SUBJECT))
        \<and> MAIL_SUBJECT = ''Weekly RDS Maintenance Report''
        \<and> \<not> starts_with_re MAIL_SUBJECT
        \<and> map fst (headers msg)
            = [''Content-Type'', ''MIME-Version'', ''Subject'', ''To'', ''Cc'', ''From'']
        \<and> header_get (headers msg) ''In-Reply-To'' = None
        \<and> header_get (headers msg) ''References'' = None"
    by (intro exI [of _ msg] exI [of _ "RECIPIENTS @ [EMAIL_USER w]"] conjI)
      (rule c s h1 h0 h2 h3 h4 h5)+
qed

text \<open>The search of an empty mailbox: the run sends a message with the fixed subject.\<close>

theorem new_path_subject_and_headers_witness:
  "find_existing_thread empty_mailbox_world = ([], Inr None)
   \<and> (\<exists>msg tos.
        send_report empty_mailbox_world example_data
          = ([] @ [Print No_existing_thread] @ send_report_smtp empty_mailbox_world msg tos, Inr ())
        \<and> header_get (headers msg) ''Subject'' = Some (Some (HStr ''Weekly RDS Maintenance Report''))
        \<and> header_get (headers msg) ''In-Reply-To'' = None)"
proof -
  have f: "find_existing_thread empty_mailbox_world = ([], Inr None)"
    by (simp add: find_existing_thread_def find_existing_thread_try_def empty_mailbox_world_def
        example_world_def raise_opt_def split_def)
  from new_path_subject_and_headers [of empty_mailbox_world "[]" example_data, rule_format, OF f]
  obtain msg tos where
    a: "send_report empty_mailbox_world example_data
          = ([] @ [Print No_existing_thread] @ send_report_smtp empty_mailbox_world msg tos, Inr ())"
    and b: "header_get (headers msg) ''Subject'' = Some (Some (HStr MAIL_SUBJECT))"
    and c: "MAIL_SUBJECT = ''Weekly RDS Maintenance Report''"
    and d: "header_get (headers msg) ''In-Reply-To'' = None"
    by (elim exE conjE)
  from b c have b': "header_get (headers msg) ''Subject'' = Some (Some (HStr ''Weekly RDS Maintenance Report''))"
    by simp
  show ?thesis
    by (intro conjI exI [of _ msg] exI [of _ tos]) (rule f a b' d)+
qed

section \<open>The reply: headers of the composed message\<close>







section \<open>The reply that cannot be composed\<close>




section \<open>The Status Fetcher degrades instead of raising\<close>




section \<open>The envelope\<close>

lemma envelope_of_compose:
  assumes ok: "set_iteration_ok w"
    and c: "send_report_compose w data original = (t, Inr (msg, tos))"
  shows "set tos = (case original of None \<Rightarrow> {} | Some p \<Rightarrow> set (reply_list w p))
                     \<union> set RECIPIENTS \<union> {EMAIL_USER w}"
proof (cases original)
  case None
  with c show ?thesis by (auto simp add: compose_new)
next
  case (Some p)
  with c have "tos = set_iteration w (reply_list w p @ RECIPIENTS @ [EMAIL_USER w])"
    using compose_reply_result [of w data p t msg tos] by blast
  with ok Some show ?thesis by (auto simp add: set_iteration_ok_def)
qed

text \<open>
  C1. With a set enumeration that lists each element once, the envelope of every composed
  message, new or reply, whatever the report data and whatever the addresses of the earlier
  message, holds the sender's address and every address of \<^verbatim>\<open>RECIPIENTS\<close>; every
  \<^verbatim>\<open>sendmail\<close> call of a run is made with such an envelope; and when the session
  reaches \<^verbatim>\<open>sendmail\<close>, the call is made with the composed envelope.
\<close>

theorem envelope_contains_sender_and_recipients:
  "set_iteration_ok w \<longrightarrow>
     (\<forall>original t msg tos. send_report_compose w data original = (t, Inr (msg, tos)) \<longrightarrow>
        EMAIL_USER w \<in> set tos \<and> set RECIPIENTS \<subseteq> set tos)
     \<and> (\<forall>sender tos body. Call_sendmail sender tos body \<in> set (fst (send_report w data)) \<longrightarrow>
        EMAIL_USER w \<in> set tos \<and> set RECIPIENTS \<subseteq> set tos)
     \<and> (\<forall>t1 original t2 msg tos body.
          find_existing_thread w = (t1, Inr original)
          \<and> send_report_compose w data original = (t2, Inr (msg, tos))
          \<and> SMTP w = None \<and> starttls w = None \<and> smtp_login w = None
          \<and> as_string w msg = Inr body
          \<longrightarrow> Call_sendmail (EMAIL_USER w) tos body \<in> set (fst (send_report w data)))"
proof (intro impI conjI allI)
  assume ok: "set_iteration_ok w"
  have env: "EMAIL_USER w \<in> set tos \<and> set RECIPIENTS \<subseteq> set tos"
    if "send_report_compose w data original = (t, Inr (msg, tos))" for original t msg tos
    using envelope_of_compose [OF ok that] by auto
  {
    fix original t msg tos
    assume "send_report_compose w data original = (t, Inr (msg, tos))"
    then show "EMAIL_USER w \<in> set tos" and "set RECIPIENTS \<subseteq> set tos"
      using env by blast+
  }
  {
    fix sender tos body
    assume ev: "Call_sendmail sender tos body \<in> set (fst (send_report w data))"
    obtain t1 original where f: "find_existing_thread w = (t1, Inr original)"
      using find_existing_thread_total [of w] by blast
    have p1: "\<forall>ev \<in> set t1. \<exists>l. ev = Print l"
      using f by (rule find_existing_thread_prints)
    obtain t2 r where c: "send_report_compose w data original = (t2, r)"
      by (cases "send_report_compose w data original")
    have p2: "\<forall>ev \<in> set t2. \<exists>l. ev = Print l"
      using c by (rule compose_prints)
    have "EMAIL_USER w \<in> set tos \<and> set RECIPIENTS \<subseteq> set tos"
    proof (cases r)
      case (Inl e)
      with f c have "fst (send_report w data) = t1 @ t2"
        by (simp add: send_report_raised)
      with ev p1 p2 show ?thesis by auto
    next
      case (Inr mt)
      obtain msg tos0 where mt: "mt = (msg, tos0)" by (cases mt)
      with Inr c have c': "send_report_compose w data original = (t2, Inr (msg, tos0))"
        by simp
      from f c' have "fst (send_report w data) = t1 @ t2 @ send_report_smtp w msg tos0"
        by (simp add: send_report_composed)
      with ev p1 p2 have "Call_sendmail sender tos body \<in> set (send_report_smtp w msg tos0)"
        by auto
      then have "tos = tos0" using sendmail_in_smtp by blast
      with env [OF c'] show ?thesis by simp
    qed
    then show "EMAIL_USER w \<in> set tos" and "set RECIPIENTS \<subseteq> set tos"
      by blast+
  }
  fix t1 original t2 msg tos body
  assume h: "find_existing_thread w = (t1, Inr original)
          \<and> send_report_compose w data original = (t2, Inr (msg, tos))
          \<and> SMTP w = None \<and> starttls w = None \<and> smtp_login w = None
          \<and> as_string w msg = Inr body"
  then have "fst (send_report w data) = t1 @ t2 @ send_report_smtp w msg tos"
    by (simp add: send_report_composed)
  moreover from h have "Call_sendmail (EMAIL_USER w) tos body \<in> set (send_report_smtp w msg tos)"
    by (simp add: sendmail_reached)
  ultimately show "Call_sendmail (EMAIL_USER w) tos body \<in> set (fst (send_report w data))"
    by simp
qed

text \<open>The reply to the example thread and the first mail of an empty mailbox.\<close>

theorem envelope_contains_sender_and_recipients_witness:
  "set_iteration_ok example_world
   \<and> (\<exists>tos body.
         Call_sendmail (EMAIL_USER example_world) tos body
           \<in> set (fst (send_report example_world example_data))
         \<and> EMAIL_USER example_world \<in> set tos \<and> set RECIPIENTS \<subseteq> set tos)
   \<and> set_iteration_ok empty_mailbox_world
   \<and> (\<exists>tos body.
         Call_sendmail (EMAIL_USER empty_mailbox_world) tos body
           \<in> set (fst (send_report empty_mailbox_world example_data))
         \<and> EMAIL_USER empty_mailbox_world \<in> set tos \<and> set RECIPIENTS \<subseteq> set tos)"
proof -
  note i = envelope_contains_sender_and_recipients
    [of example_world example_data, rule_format, OF set_iteration_ok_example]
  obtain t2 msg tos where
    c: "send_report_compose example_world example_data (Some example_prior) = (t2, Inr (msg, tos))"
    using compose_reply_succeeds_iff [of example_world example_data example_prior]
      threading_headers_text_example by blast
  obtain body where b: "as_string example_world msg = Inr body"
    using as_string_example [of msg] by blast
  have h: "find_existing_thread example_world = ([], Inr (Some example_prior))
          \<and> send_report_compose example_world example_data (Some example_prior) = (t2, Inr (msg, tos))
          \<and> SMTP example_world = None \<and> starttls example_world = None
          \<and> smtp_login example_world = None
          \<and> as_string example_world msg = Inr body"
    using find_existing_thread_example c transport_up_example b by simp
  have ev: "Call_sendmail (EMAIL_USER example_world) tos body
              \<in> set (fst (send_report example_world example_data))"
    by (rule i [THEN conjunct2, THEN conjunct2, rule_format, OF h])
  have m: "EMAIL_USER example_world \<in> set tos \<and> set RECIPIENTS \<subseteq> set tos"
    by (rule i [THEN conjunct2, THEN conjunct1, rule_format, OF ev])
  have e1: "\<exists>tos body.
         Call_sendmail (EMAIL_USER example_world) tos body
           \<in> set (fst (send_report example_world example_data))
         \<and> EMAIL_USER example_world \<in> set tos \<and> set RECIPIENTS \<subseteq> set tos"
    using ev m by (intro exI [of _ tos] exI [of _ body]) simp
  note i' = envelope_contains_sender_and_recipients
    [of empty_mailbox_world example_data, rule_format, OF set_iteration_ok_empty_mailbox]
  obtain t2' msg' tos' where
    c': "send_report_compose empty_mailbox_world example_data None = (t2', Inr (msg', tos'))"
    by (simp add: compose_new)
  obtain body' where b': "as_string empty_mailbox_world msg' = Inr body'"
    using as_string_empty_mailbox [of msg'] by blast
  have h': "find_existing_thread empty_mailbox_world = ([], Inr None)
          \<and> send_report_compose empty_mailbox_world example_data None = (t2', Inr (msg', tos'))
          \<and> SMTP empty_mailbox_world = None \<and> starttls empty_mailbox_world = None
          \<and> smtp_login empty_mailbox_world = None
          \<and> as_string empty_mailbox_world msg' = Inr body'"
    using find_existing_thread_empty_mailbox c' transport_up_empty_mailbox b' by simp
  have ev': "Call_sendmail (EMAIL_USER empty_mailbox_world) tos' body'
              \<in> set (fst (send_report empty_mailbox_world example_data))"
    by (rule i' [THEN conjunct2, THEN conjunct2, rule_format, OF h'])
  have m': "EMAIL_USER empty_mailbox_world \<in> set tos' \<and> set RECIPIENTS \<subseteq> set tos'"
    by (rule i' [THEN conjunct2, THEN conjunct1, rule_format, OF ev'])
  have e2: "\<exists>tos body.
         Call_sendmail (EMAIL_USER empty_mailbox_world) tos body
           \<in> set (fst (send_report empty_mailbox_world example_data))
         \<and> EMAIL_USER empty_mailbox_world \<in> set tos \<and> set RECIPIENTS \<subseteq> set tos"
    using ev' m' by (intro exI [of _ tos'] exI [of _ body']) simp
  show ?thesis
    by (intro conjI) (rule set_iteration_ok_example e1 set_iteration_ok_empty_mailbox e2)+
qed

section \<open>The reply envelope and the fields of the earlier message\<close>

lemma find_existing_thread_no_from:
  "find_existing_thread no_from_world = ([], Inr (Some prior_without_from))"
  by (simp add: find_existing_thread_def find_existing_thread_try_def no_from_world_def
      example_world_def raise_opt_def split_def is_space_def)

lemma find_existing_thread_empty_cc:
  "find_existing_thread empty_cc_world = ([], Inr (Some prior_with_empty_cc))"
  by (simp add: find_existing_thread_def find_existing_thread_try_def empty_cc_world_def
      example_world_def raise_opt_def split_def is_space_def)

lemma prior_without_from_headers:
  "msg_get prior_without_from ''Subject'' = Some (HStr ''Re: Weekly RDS Maintenance Report'')"
  "msg_get prior_without_from ''Message-ID'' = Some (HStr ''<CAF4@mail.gmail.com>'')"
  "msg_get prior_without_from ''References'' = None"
  "msg_get prior_without_from ''From'' = None"
  by (simp_all add: prior_without_from_def header_eval)

lemma prior_with_empty_cc_headers:
  "msg_get prior_with_empty_cc ''Subject'' = Some (HStr ''Re: Weekly RDS Maintenance Report'')"
  "msg_get prior_with_empty_cc ''Message-ID'' = Some (HStr ''<CAF6@mail.gmail.com>'')"
  "msg_get prior_with_empty_cc ''References'' = Some (HStr '' <CAF5@mail.gmail.com>'')"
  "msg_get prior_with_empty_cc ''Cc'' = Some (HStr [])"
  by (simp_all add: prior_with_empty_cc_def header_eval)

lemma reply_list_no_from:
  "reply_list no_from_world prior_without_from
     = [''bot@example.com'', ''oncall@example.com'', ''None'']"
  by (simp add: reply_list_def get_all_def no_from_world_def example_world_def
      prior_without_from_def bare_addresses_def header_eval)

lemma reply_list_empty_cc:
  "reply_list empty_cc_world prior_with_empty_cc = [''bot@example.com'', [], ''bot@example.com'']"
  by (simp add: reply_list_def get_all_def empty_cc_world_def example_world_def
      prior_with_empty_cc_def bare_addresses_def header_eval)

text \<open>
  C5 at two mailboxes. The earlier message has To, Cc, Subject and Message-ID and no From
  header: line 140 passes \<^verbatim>\<open>None\<close> to the address parser, and the envelope of the reply
  holds the text \<^verbatim>\<open>None\<close> as an address. The earlier message is the bot's own reply with
  a Cc header without a value: the envelope holds the empty address. Neither is an address
  of a field of the earlier message, a configured recipient or the sender.
\<close>

theorem reply_envelope_gains_none_and_empty:
  "find_existing_thread no_from_world = ([], Inr (Some prior_without_from))
   \<and> msg_get prior_without_from ''From'' = None
   \<and> (\<exists>t msg. send_report_compose no_from_world example_data (Some prior_without_from)
        = (t, Inr (msg, [''oncall@example.com'', ''None'', ''trinadh5121@gmail.com'',
                         ''keerthisetty2001@gmail.com'', ''2021tm70803@wilp.bitspilani.ac.in'',
                         ''bot@example.com''])))
   \<and> ''None'' \<notin> set RECIPIENTS \<union> {EMAIL_USER no_from_world}
   \<and> find_existing_thread empty_cc_world = ([], Inr (Some prior_with_empty_cc))
   \<and> msg_get prior_with_empty_cc ''Cc'' = Some (HStr [])
   \<and> (\<exists>t msg. send_report_compose empty_cc_world example_data (Some prior_with_empty_cc)
        = (t, Inr (msg, [[], ''trinadh5121@gmail.com'', ''keerthisetty2001@gmail.com'',
                         ''2021tm70803@wilp.bitspilani.ac.in'', ''bot@example.com''])))
   \<and> [] \<notin> set RECIPIENTS \<union> {EMAIL_USER empty_cc_world}"
proof -
  have rv1: "references_value (msg_get prior_without_from ''References'')
               (msg_get prior_without_from ''Message-ID'') = Inr '' <CAF4@mail.gmail.com>''"
    by (simp add: prior_without_from_headers references_value_def or_empty_def)
  have si1: "set_iteration no_from_world = remdups"
    and eu1: "EMAIL_USER no_from_world = ''bot@example.com''"
    by (simp_all add: no_from_world_def example_world_def)
  have t1: "set_iteration no_from_world
              (reply_list no_from_world prior_without_from @ RECIPIENTS @ [EMAIL_USER no_from_world])
            = [''oncall@example.com'', ''None'', ''trinadh5121@gmail.com'',
               ''keerthisetty2001@gmail.com'', ''2021tm70803@wilp.bitspilani.ac.in'',
               ''bot@example.com'']"
    by (simp add: reply_list_no_from RECIPIENTS_def si1 eu1)
  have c1: "\<exists>t msg. send_report_compose no_from_world example_data (Some prior_without_from)
        = (t, Inr (msg, [''oncall@example.com'', ''None'', ''trinadh5121@gmail.com'',
                         ''keerthisetty2001@gmail.com'', ''2021tm70803@wilp.bitspilani.ac.in'',
                         ''bot@example.com'']))"
    by (simp only: compose_reply [OF prior_without_from_headers(1) rv1] t1) blast
  have n1: "''None'' \<notin> set RECIPIENTS \<union> {EMAIL_USER no_from_world}"
    by (simp add: RECIPIENTS_def eu1)
  have rv2: "references_value (msg_get prior_with_empty_cc ''References'')
               (msg_get prior_with_empty_cc ''Message-ID'')
             = Inr '' <CAF5@mail.gmail.com> <CAF6@mail.gmail.com>''"
    by (simp add: prior_with_empty_cc_headers references_value_def or_empty_def)
  have si2: "set_iteration empty_cc_world = remdups"
    and eu2: "EMAIL_USER empty_cc_world = ''bot@example.com''"
    by (simp_all add: empty_cc_world_def example_world_def)
  have t2: "set_iteration empty_cc_world
              (reply_list empty_cc_world prior_with_empty_cc @ RECIPIENTS
                 @ [EMAIL_USER empty_cc_world])
            = [[], ''trinadh5121@gmail.com'', ''keerthisetty2001@gmail.com'',
               ''2021tm70803@wilp.bitspilani.ac.in'', ''bot@example.com'']"
    by (simp add: reply_list_empty_cc RECIPIENTS_def si2 eu2)
  have c2: "\<exists>t msg. send_report_compose empty_cc_world example_data (Some prior_with_empty_cc)
        = (t, Inr (msg, [[], ''trinadh5121@gmail.com'', ''keerthisetty2001@gmail.com'',
                         ''2021tm70803@wilp.bitspilani.ac.in'', ''bot@example.com'']))"
    by (simp only: compose_reply [OF prior_with_empty_cc_headers(1) rv2] t2) blast
  have n2: "[] \<notin> set RECIPIENTS \<union> {EMAIL_USER empty_cc_world}"
    by (simp add: RECIPIENTS_def eu2)
  show ?thesis
    by (intro conjI)
      (rule find_existing_thread_no_from prior_without_from_headers(4) c1 n1
        find_existing_thread_empty_cc prior_with_empty_cc_headers(4) c2 n2)+
qed

section \<open>The report body\<close>

lemma html_body_contains_rendered:
  "sublist (py_str (py_repr w) (dict_get data ''engine'')) (html_body w data)"
  "sublist (py_str (py_repr w) (dict_get data ''version'')) (html_body w data)"
  "sublist (py_str (py_repr w) (dict_get data ''status'')) (html_body w data)"
  "sublist (py_str (py_repr w) (dict_get data ''maintenance_window'')) (html_body w data)"
proof -
  let ?e = "py_str (py_repr w) (dict_get data ''engine'')"
  let ?v = "py_str (py_repr w) (dict_get data ''version'')"
  let ?s = "py_str (py_repr w) (dict_get data ''status'')"
  let ?m = "py_str (py_repr w) (dict_get data ''maintenance_window'')"
  let ?p = "if truthy (dict_get data ''pending_mods'')
            then py_str (py_repr w) (dict_get data ''pending_mods'') else ''None''"
  have b: "html_body w data =
     html_1 @ DB_INSTANCE_ID @ html_2 @ ?e @ html_3 @ ?v @ html_4 @ ?s @ html_5 @ ?m @ html_6 @ ?p @ html_7"
    by (simp only: html_body_def)
  have "html_body w data = (html_1 @ DB_INSTANCE_ID @ html_2) @ ?e
          @ (html_3 @ ?v @ html_4 @ ?s @ html_5 @ ?m @ html_6 @ ?p @ html_7)"
    by (simp only: b append_assoc)
  then show "sublist ?e (html_body w data)"
    unfolding sublist_def by blast
  have "html_body w data = (html_1 @ DB_INSTANCE_ID @ html_2 @ ?e @ html_3) @ ?v
          @ (html_4 @ ?s @ html_5 @ ?m @ html_6 @ ?p @ html_7)"
    by (simp only: b append_assoc)
  then show "sublist ?v (html_body w data)"
    unfolding sublist_def by blast
  have "html_body w data = (html_1 @ DB_INSTANCE_ID @ html_2 @ ?e @ html_3 @ ?v @ html_4) @ ?s
          @ (html_5 @ ?m @ html_6 @ ?p @ html_7)"
    by (simp only: b append_assoc)
  then show "sublist ?s (html_body w data)"
    unfolding sublist_def by blast
  have "html_body w data
          = (html_1 @ DB_INSTANCE_ID @ html_2 @ ?e @ html_3 @ ?v @ html_4 @ ?s @ html_5) @ ?m
          @ (html_6 @ ?p @ html_7)"
    by (simp only: b append_assoc)
  then show "sublist ?m (html_body w data)"
    unfolding sublist_def by blast
qed

text \<open>A successful fetch hands the four values of the instance description on unchanged.\<close>

lemma get_rds_details_try_fields:
  assumes "get_rds_details_try w = Inr d"
  shows "\<exists>response instances db.
           describe_db_instances w = Inr response
           \<and> getitem_str response ''DBInstances'' = Inr instances
           \<and> getitem_0 instances = Inr db
           \<and> getitem_str db ''Engine'' = Inr (dict_get d ''engine'')
           \<and> getitem_str db ''EngineVersion'' = Inr (dict_get d ''version'')
           \<and> getitem_str db ''DBInstanceStatus'' = Inr (dict_get d ''status'')
           \<and> getitem_str db ''PreferredMaintenanceWindow'' = Inr (dict_get d ''maintenance_window'')"
  using assms
  by (auto simp add: get_rds_details_try_def py_bind_def raise_opt_def dict_get_def
      split: option.splits sum.splits)

lemma get_rds_details_example: "get_rds_details example_world = ([], Inr example_data)"
  by (simp add: get_rds_details_def get_rds_details_try_def example_world_def example_db_def
      example_data_def raise_opt_def)

text \<open>
  C9. For a record whose engine, version, status and maintenance window are strings, as
  the record of a successful fetch has them, the HTML body holds each of the four strings
  as a contiguous piece; and the body of every composed message, new or reply, is that
  HTML, made from the record alone.
\<close>

theorem html_body_contains_fields:
  "dict_get data ''engine'' = PStr engine \<and> dict_get data ''version'' = PStr version
   \<and> dict_get data ''status'' = PStr status
   \<and> dict_get data ''maintenance_window'' = PStr window \<longrightarrow>
     sublist engine (html_body w data) \<and> sublist version (html_body w data)
     \<and> sublist status (html_body w data) \<and> sublist window (html_body w data)
     \<and> (\<forall>original t msg tos. send_report_compose w data original = (t, Inr (msg, tos)) \<longrightarrow>
           payload msg = [\<lparr>text_of = html_body w data, subtype = ''html''\<rparr>])"
proof (intro impI conjI allI)
  assume h: "dict_get data ''engine'' = PStr engine \<and> dict_get data ''version'' = PStr version
   \<and> dict_get data ''status'' = PStr status
   \<and> dict_get data ''maintenance_window'' = PStr window"
  show "sublist engine (html_body w data)"
    using html_body_contains_rendered(1) [of w data] h by simp
  show "sublist version (html_body w data)"
    using html_body_contains_rendered(2) [of w data] h by simp
  show "sublist status (html_body w data)"
    using html_body_contains_rendered(3) [of w data] h by simp
  show "sublist window (html_body w data)"
    using html_body_contains_rendered(4) [of w data] h by simp
  fix original t msg tos
  assume "send_report_compose w data original = (t, Inr (msg, tos))"
  then show "payload msg = [\<lparr>text_of = html_body w data, subtype = ''html''\<rparr>]"
    by (rule payload_compose)
qed

text \<open>The record fetched in the example world.\<close>

theorem html_body_contains_fields_witness:
  "snd (get_rds_details example_world) = Inr example_data
   \<and> dict_get example_data ''engine'' = PStr ''postgres''
   \<and> dict_get example_data ''version'' = PStr ''15.4''
   \<and> dict_get example_data ''status'' = PStr ''available''
   \<and> dict_get example_data ''maintenance_window'' = PStr ''sun:05:00-sun:05:30''
   \<and> sublist ''postgres'' (html_body example_world example_data)
   \<and> sublist ''15.4'' (html_body example_world example_data)
   \<and> sublist ''available'' (html_body example_world example_data)
   \<and> sublist ''sun:05:00-sun:05:30'' (html_body example_world example_data)"
proof -
  have g: "snd (get_rds_details example_world) = Inr example_data"
    by (simp add: get_rds_details_example)
  have e: "dict_get example_data ''engine'' = PStr ''postgres''"
    by (simp add: dict_get_def example_data_def)
  have v: "dict_get example_data ''version'' = PStr ''15.4''"
    by (simp add: dict_get_def example_data_def)
  have s: "dict_get example_data ''status'' = PStr ''available''"
    by (simp add: dict_get_def example_data_def)
  have m: "dict_get example_data ''maintenance_window'' = PStr ''sun:05:00-sun:05:30''"
    by (simp add: dict_get_def example_data_def)
  have h: "dict_get example_data ''engine'' = PStr ''postgres''
           \<and> dict_get example_data ''version'' = PStr ''15.4''
           \<and> dict_get example_data ''status'' = PStr ''available''
           \<and> dict_get example_data ''maintenance_window'' = PStr ''sun:05:00-sun:05:30''"
    by (intro conjI) (rule e v s m)+
  note i = html_body_contains_fields
    [of example_data "''postgres''" "''15.4''" "''available''" "''sun:05:00-sun:05:30''"
      example_world, rule_format, OF h]
  show ?thesis
    by (intro conjI)
      (rule g e v s m i [THEN conjunct1] i [THEN conjunct2, THEN conjunct1]
        i [THEN conjunct2, THEN conjunct2, THEN conjunct1]
        i [THEN conjunct2, THEN conjunct2, THEN conjunct2, THEN conjunct1])+
qed

end
